theory Spec2Isabelle
  imports Main
begin

section \<open>The wechat client: data model\<close>

text \<open>
  The development follows \<^verbatim>\<open>client/client.go\<close>. A Go \<^verbatim>\<open>error\<close> is represented by its
  message, \<^verbatim>\<open>nil\<close> by \<open>None\<close>; a pair \<^verbatim>\<open>(value, err)\<close> returned by a library call is a
  sum with the error on the left. A \<^verbatim>\<open>time.Duration\<close> is an integer.
\<close>

type_synonym error = string
type_synonym bytes = string
type_synonym duration = int

text \<open>\<^verbatim>\<open>http.Response\<close>, restricted to the three fields the client reads.\<close>

record http_response =
  Status :: string
  StatusCode :: int
  Body :: bytes

definition StatusOK :: int where
  "StatusOK = 200"

text \<open>
  \<^verbatim>\<open>http.Client\<close>: the two methods the client calls. The transport is a collaborator of the
  program, so what a call returns is left open.
\<close>

record http_client =
  Post :: "string \<Rightarrow> string \<Rightarrow> bytes \<Rightarrow> error + http_response"
  Get :: "string \<Rightarrow> error + http_response"

text \<open>
  A \<^verbatim>\<open>*bytes.Buffer\<close>: the address that identifies the buffer and the bytes it holds.
\<close>

record buffer =
  ptr :: nat
  data :: bytes

text \<open>
  Modelled from the spec: \<^verbatim>\<open>newBuffer\<close>, the factory handed to \<^verbatim>\<open>pool.New\<close>, is declared
  outside \<^verbatim>\<open>client.go\<close>. The spec describes a pooled buffer as a scratch container that is
  empty when fresh; the address is the one the allocation returns.
\<close>

definition newBuffer :: "nat \<Rightarrow> buffer" where
  "newBuffer a = \<lparr>ptr = a, data = []\<rparr>"

text \<open>
  Modelled from the spec: \<^verbatim>\<open>pool.Pool\<close> is imported from another package. Spec section 4.2:
  the pool preallocates nothing; \<open>capacity\<close> bounds the idle buffers it retains; Acquire
  returns an idle buffer if one exists and otherwise constructs one; Release resets the
  buffer to empty and keeps it if the idle set has room, else discards it. \<open>allocated\<close>
  counts the buffers the factory has produced and supplies the next address.
\<close>

record pool =
  idle :: "buffer list"
  capacity :: nat
  allocated :: nat

definition pool_New :: "nat \<Rightarrow> pool" where
  "pool_New n = \<lparr>idle = [], capacity = n, allocated = 0\<rparr>"

definition pool_Get :: "pool \<Rightarrow> buffer \<times> pool" where
  "pool_Get p =
     (case idle p of
        [] \<Rightarrow> (newBuffer (allocated p), p\<lparr>allocated := Suc (allocated p)\<rparr>)
      | b # bs \<Rightarrow> (b, p\<lparr>idle := bs\<rparr>))"

definition pool_Put :: "buffer \<Rightarrow> pool \<Rightarrow> pool" where
  "pool_Put b p =
     (if length (idle p) < capacity p then p\<lparr>idle := b\<lparr>data := []\<rparr> # idle p\<rparr> else p)"

text \<open>
  The field \<^verbatim>\<open>currentToken\<close> of \<^verbatim>\<open>Client\<close>: the token and the error of the last fetch. The
  \<^verbatim>\<open>rwmutex\<close> of the Go struct has no counterpart: the model runs one operation at a time.
\<close>

record currentToken =
  token :: string
  err :: "error option"

text \<open>
  A channel value, as \<^verbatim>\<open>make\<close> returns it: the number of elements it buffers. The channel
  made by \<^verbatim>\<open>make(chan time.Duration)\<close> buffers none.
\<close>

datatype chan = Chan nat

text \<open>
  \<^verbatim>\<open>Client\<close>. The last two fields are not fields of the Go struct: they are the state of
  the goroutine \<^verbatim>\<open>tokenService()\<close> of this client, namely whether it has been started and
  the duration its timer runs on (\<open>None\<close> until a duration has been set). The comment on
  \<^verbatim>\<open>resetRefreshTokenTickChan\<close> has \<^verbatim>\<open>tokenService()\<close> refresh the token whenever the timer
  fires, and reset the timer to each duration that arrives over the channel.
\<close>

record client =
  appid :: string
  appsecret :: string
  currentToken :: currentToken
  resetRefreshTokenTickChan :: chan
  bufferPool :: pool
  httpClient :: http_client
  tokenService :: bool
  tick :: "duration option"

section \<open>Requests\<close>

text \<open>
  Modelled from the spec: \<^verbatim>\<open>getBufferFromPool\<close> and \<^verbatim>\<open>putBufferToPool\<close> are methods of
  \<^verbatim>\<open>Client\<close> declared outside \<^verbatim>\<open>client.go\<close>. Spec section 4.3 has the request executor
  Acquire a buffer from the pool and Release it.
\<close>

definition getBufferFromPool :: "client \<Rightarrow> buffer \<times> client" where
  "getBufferFromPool c =
     (case pool_Get (bufferPool c) of (b, p) \<Rightarrow> (b, c\<lparr>bufferPool := p\<rparr>))"

definition putBufferToPool :: "buffer \<Rightarrow> client \<Rightarrow> client" where
  "putBufferToPool b c = c\<lparr>bufferPool := pool_Put b (bufferPool c)\<rparr>"

text \<open>
  The statements of \<^verbatim>\<open>postJSON\<close> that follow \<^verbatim>\<open>defer c.putBufferToPool(buf)\<close>, one branch for
  each \<^verbatim>\<open>return\<close>. The encoder and the decoder of \<^verbatim>\<open>encoding/json\<close> are parameters: \<open>enc\<close>
  writes the request into the bytes of the buffer and may fail; \<open>dec\<close> reads a body into
  the value \<^verbatim>\<open>response\<close> points to and may fail, leaving whatever it has written. The result
  is the error returned, the value behind \<^verbatim>\<open>response\<close>, and the buffer. The bytes the
  transport reads from the buffer stay in the model's buffer; \<^verbatim>\<open>resp.Body.Close()\<close> has no
  effect on the state modelled.
\<close>

definition postJSON_body ::
  "('q \<Rightarrow> bytes \<Rightarrow> error option \<times> bytes) \<Rightarrow> (bytes \<Rightarrow> 'v \<Rightarrow> error option \<times> 'v) \<Rightarrow>
   http_client \<Rightarrow> string \<Rightarrow> 'q \<Rightarrow> 'v \<Rightarrow> buffer \<Rightarrow> (error option \<times> 'v) \<times> buffer" where
  "postJSON_body enc dec hc url request response buf =
     (case enc request (data buf) of
        (Some e, d) \<Rightarrow> ((Some e, response), buf\<lparr>data := d\<rparr>)
      | (None, d) \<Rightarrow>
          (case Post hc url ''application/json; charset=utf-8'' d of
             Inl e \<Rightarrow> ((Some e, response), buf\<lparr>data := d\<rparr>)
           | Inr resp \<Rightarrow>
               if StatusCode resp \<noteq> StatusOK
               then ((Some (''http.Status: '' @ Status resp), response), buf\<lparr>data := d\<rparr>)
               else (case dec (Body resp) response of
                       (Some e, v) \<Rightarrow> ((Some e, v), buf\<lparr>data := d\<rparr>)
                     | (None, v) \<Rightarrow> ((None, v), buf\<lparr>data := d\<rparr>))))"

text \<open>
  \<^verbatim>\<open>postJSON\<close>: take a buffer, register its return, run the body; the deferred call runs
  when the body returns, whichever \<^verbatim>\<open>return\<close> that was.
\<close>

definition postJSON ::
  "('q \<Rightarrow> bytes \<Rightarrow> error option \<times> bytes) \<Rightarrow> (bytes \<Rightarrow> 'v \<Rightarrow> error option \<times> 'v) \<Rightarrow>
   client \<Rightarrow> string \<Rightarrow> 'q \<Rightarrow> 'v \<Rightarrow> (error option \<times> 'v) \<times> client" where
  "postJSON enc dec c url request response =
     (case getBufferFromPool c of
        (buf, c1) \<Rightarrow>
          (case postJSON_body enc dec (httpClient c1) url request response buf of
             (res, buf') \<Rightarrow> (res, putBufferToPool buf' c1)))"

text \<open>\<^verbatim>\<open>getJSON\<close>. It returns the client as it received it.\<close>

definition getJSON ::
  "(bytes \<Rightarrow> 'v \<Rightarrow> error option \<times> 'v) \<Rightarrow> client \<Rightarrow> string \<Rightarrow> 'v \<Rightarrow> (error option \<times> 'v) \<times> client" where
  "getJSON dec c url response =
     (case Get (httpClient c) url of
        Inl e \<Rightarrow> ((Some e, response), c)
      | Inr resp \<Rightarrow>
          if StatusCode resp \<noteq> StatusOK
          then ((Some (''http.Status: '' @ Status resp), response), c)
          else (case dec (Body resp) response of
                  (Some e, v) \<Rightarrow> ((Some e, v), c)
                | (None, v) \<Rightarrow> ((None, v), c)))"

section \<open>Credentials\<close>

text \<open>
  What the client is given from outside: \<^verbatim>\<open>http.DefaultClient\<close>; the collaborator that
  fetches a credential (spec section 6: Authenticate takes the application identifier and
  the secret and returns a token with its validity, or an error), acting on the state \<open>'r\<close>
  of the remote authority; and the two durations the spec leaves to the implementation:
  the interval to the next refresh computed from a validity, and the interval after which
  a failed fetch is retried.
\<close>

record 'r env =
  DefaultClient :: http_client
  Authenticate :: "string \<Rightarrow> string \<Rightarrow> 'r \<Rightarrow> (error + string \<times> duration) \<times> 'r"
  refreshAfter :: "duration \<Rightarrow> duration"
  retryAfter :: duration

text \<open>
  Modelled from the spec: \<^verbatim>\<open>TokenRefresh\<close> is called by \<^verbatim>\<open>NewClient\<close> and declared outside
  \<^verbatim>\<open>client.go\<close>. Spec section 4.1, internal refresh algorithm: call Authenticate with the
  identifier and the secret; on success replace the credential state by the new token
  and no error, and compute the next refresh interval from the reported validity; on
  failure replace it by the previous token (or the empty one) and the error, and retry
  after the fallback interval.
\<close>

definition TokenRefresh :: "'r env \<Rightarrow> client \<Rightarrow> 'r \<Rightarrow> client \<times> 'r" where
  "TokenRefresh env c r =
     (case Authenticate env (appid c) (appsecret c) r of
        (Inr (tok, validFor), r') \<Rightarrow>
          (c\<lparr>currentToken := \<lparr>token = tok, err = None\<rparr>,
             tick := Some (refreshAfter env validFor)\<rparr>, r')
      | (Inl e, r') \<Rightarrow>
          (c\<lparr>currentToken := \<lparr>token = token (currentToken c), err = Some e\<rparr>,
             tick := Some (retryAfter env)\<rparr>, r'))"

text \<open>
  Modelled from the spec: \<^verbatim>\<open>Token\<close>, the read of the credential state, is declared outside
  \<^verbatim>\<open>client.go\<close>. Spec section 4.1, CurrentValue: return the current token and error.
\<close>

definition Token :: "client \<Rightarrow> string \<times> error option" where
  "Token c = (token (currentToken c), err (currentToken c))"

text \<open>
  Modelled from the spec: the body of \<^verbatim>\<open>tokenService\<close> is declared outside \<^verbatim>\<open>client.go\<close>.
  Spec section 4.1, state machine of the background loop: from idle, a firing of the
  timer runs the refresh and returns to idle with the timer re-armed. This is one firing;
  a client whose goroutine was never started has no timer to fire.
\<close>

definition tokenService_fire :: "'r env \<Rightarrow> client \<Rightarrow> 'r \<Rightarrow> client \<times> 'r" where
  "tokenService_fire env c r = (if tokenService c then TokenRefresh env c r else (c, r))"

text \<open>
  \<^verbatim>\<open>NewClient\<close>: the struct literal (the fields it leaves out hold their zero values), the
  choice of the transport, \<^verbatim>\<open>go c.tokenService()\<close>, then \<^verbatim>\<open>c.TokenRefresh()\<close>, whose results
  are dropped; the only result is the client.
\<close>

definition NewClient ::
  "'r env \<Rightarrow> string \<Rightarrow> string \<Rightarrow> http_client option \<Rightarrow> 'r \<Rightarrow> client \<times> 'r" where
  "NewClient env appid' appsecret' httpClient' r =
     (let c = \<lparr>appid = appid', appsecret = appsecret',
                currentToken = \<lparr>token = [], err = None\<rparr>,
                resetRefreshTokenTickChan = Chan 0,
                bufferPool = pool_New 16,
                httpClient = (case httpClient' of None \<Rightarrow> DefaultClient env | Some h \<Rightarrow> h),
                tokenService = False, tick = None\<rparr>;
          c = c\<lparr>tokenService := True\<rparr>
      in TokenRefresh env c r)"

section \<open>Inputs for the worked instances\<close>

text \<open>
  A transport that answers \<^verbatim>\<open>/ok\<close> with status 200 and the body it was sent (an empty
  object on GET), \<^verbatim>\<open>/missing\<close> with status 404, and fails to connect anywhere else.
\<close>

abbreviation sample_transport :: http_client where
  "sample_transport \<equiv>
     \<lparr>Post = (\<lambda>url ctype body.
        if url = ''/ok'' then Inr \<lparr>Status = ''200 OK'', StatusCode = 200, Body = body\<rparr>
        else if url = ''/missing'' then Inr \<lparr>Status = ''404 Not Found'', StatusCode = 404, Body = []\<rparr>
        else Inl ''connection refused''),
      Get = (\<lambda>url.
        if url = ''/ok'' then Inr \<lparr>Status = ''200 OK'', StatusCode = 200, Body = ''{}''\<rparr>
        else if url = ''/missing'' then Inr \<lparr>Status = ''404 Not Found'', StatusCode = 404, Body = []\<rparr>
        else Inl ''connection refused'')\<rparr>"

text \<open>
  The remote authority of the scenarios of spec section 8, its state being the number of
  calls it has answered: the first call yields \<^verbatim>\<open>tok1\<close>, valid for two hours (in seconds),
  every later call fails with \<^verbatim>\<open>ErrNetwork\<close>. The refresh is ten seconds before expiry, the
  retry after a minute.
\<close>

abbreviation tok1_then_down :: "nat env" where
  "tok1_then_down \<equiv>
     \<lparr>DefaultClient = sample_transport,
      Authenticate = (\<lambda>a s n. (if n = 0 then Inr (''tok1'', 7200) else Inl ''ErrNetwork'', Suc n)),
      refreshAfter = (\<lambda>d. d - 10),
      retryAfter = 60\<rparr>"

text \<open>The same authority, failing on the first call and yielding \<^verbatim>\<open>tok1\<close> afterwards.\<close>

abbreviation down_then_tok1 :: "nat env" where
  "down_then_tok1 \<equiv>
     \<lparr>DefaultClient = sample_transport,
      Authenticate = (\<lambda>a s n. (if n = 0 then Inl ''ErrNetwork'' else Inr (''tok1'', 7200), Suc n)),
      refreshAfter = (\<lambda>d. d - 10),
      retryAfter = 60\<rparr>"

text \<open>A client as \<^verbatim>\<open>NewClient\<close> leaves it after a first fetch of \<^verbatim>\<open>tok1\<close>.\<close>

abbreviation sample_client :: client where
  "sample_client \<equiv>
     \<lparr>appid = ''wx1'', appsecret = ''s3cret'',
      currentToken = \<lparr>token = ''tok1'', err = None\<rparr>,
      resetRefreshTokenTickChan = Chan 0,
      bufferPool = \<lparr>idle = [], capacity = 16, allocated = 0\<rparr>,
      httpClient = sample_transport,
      tokenService = True, tick = Some 7190\<rparr>"

text \<open>An encoder that appends the request to the buffer, a decoder that stores the body.\<close>

abbreviation sample_enc :: "string \<Rightarrow> bytes \<Rightarrow> error option \<times> bytes" where
  "sample_enc \<equiv> (\<lambda>q d. (None, d @ q))"

abbreviation sample_dec :: "bytes \<Rightarrow> string \<Rightarrow> error option \<times> string" where
  "sample_dec \<equiv> (\<lambda>b v. (None, b))"

section \<open>The buffer pool\<close>

lemma pool_Put_data [simp]: "pool_Put (b\<lparr>data := d\<rparr>) p = pool_Put b p"
  by (simp add: pool_Put_def)

lemma postJSON_body_buffer:
  "\<exists>d. snd (postJSON_body enc dec hc url request response buf) = buf\<lparr>data := d\<rparr>"
  by (auto simp add: postJSON_body_def split: prod.splits option.splits sum.splits)

lemma pool_Get_room:
  assumes "length (idle p) \<le> capacity p" and "0 < capacity p" and "pool_Get p = (b, p')"
  shows "length (idle p') < capacity p'"
  using assms by (auto simp add: pool_Get_def split: list.splits)

lemma pool_Put_bounded:
  "length (idle p) \<le> capacity p \<Longrightarrow> length (idle (pool_Put b p)) \<le> capacity (pool_Put b p)"
  by (simp add: pool_Put_def)

text \<open>
  C7. Every execution of \<^verbatim>\<open>postJSON\<close> gives the buffer it took from the pool back to the
  pool, whichever way it returns (success, encode error, transport error, status other
  than 200, decode error): for every encoder, decoder, transport and request, the client
  it leaves is the one after the acquisition with that very buffer released into it. In
  a pool that respects its capacity the buffer is then idle again, and empty.
\<close>

theorem postJSON_releases_buffer:
  assumes "getBufferFromPool c = (buf, c1)"
  shows "snd (postJSON enc dec c url request response) = putBufferToPool buf c1 \<and>
         (length (idle (bufferPool c)) \<le> capacity (bufferPool c) \<and> 0 < capacity (bufferPool c) \<longrightarrow>
            buf\<lparr>data := []\<rparr> \<in> set (idle (bufferPool (snd (postJSON enc dec c url request response)))))"
proof -
  obtain d where d: "snd (postJSON_body enc dec (httpClient c1) url request response buf) = buf\<lparr>data := d\<rparr>"
    using postJSON_body_buffer [of enc dec "httpClient c1" url request response buf] by blast
  have released: "snd (postJSON enc dec c url request response) = putBufferToPool buf c1"
    using assms d by (simp add: postJSON_def putBufferToPool_def case_prod_beta)
  have idle_again: "buf\<lparr>data := []\<rparr> \<in> set (idle (bufferPool (putBufferToPool buf c1)))"
    if "length (idle (bufferPool c)) \<le> capacity (bufferPool c)" and "0 < capacity (bufferPool c)"
  proof -
    from assms have "pool_Get (bufferPool c) = (buf, bufferPool c1)"
      by (auto simp add: getBufferFromPool_def split: prod.splits)
    with that have "length (idle (bufferPool c1)) < capacity (bufferPool c1)"
      by (rule pool_Get_room)
    then show ?thesis
      by (simp add: putBufferToPool_def pool_Put_def)
  qed
  from released idle_again show ?thesis by simp
qed

theorem postJSON_releases_buffer_witness:
  "getBufferFromPool sample_client =
     (newBuffer 0, sample_client\<lparr>bufferPool := \<lparr>idle = [], capacity = 16, allocated = 1\<rparr>\<rparr>) \<and>
   snd (postJSON sample_enc sample_dec sample_client ''/missing'' ''{}'' []) =
     sample_client\<lparr>bufferPool := \<lparr>idle = [newBuffer 0], capacity = 16, allocated = 1\<rparr>\<rparr> \<and>
   newBuffer 0 \<in> set (idle (bufferPool
     (snd (postJSON sample_enc sample_dec sample_client ''/missing'' ''{}'' []))))"
proof -
  have h: "getBufferFromPool sample_client =
     (newBuffer 0, sample_client\<lparr>bufferPool := \<lparr>idle = [], capacity = 16, allocated = 1\<rparr>\<rparr>)"
    by (simp add: getBufferFromPool_def pool_Get_def)
  show ?thesis
    using h postJSON_releases_buffer [OF h, of sample_enc sample_dec "''/missing''" "''{}''" "[]"]
    by (simp add: putBufferToPool_def pool_Put_def newBuffer_def)
qed

section \<open>Status codes\<close>

text \<open>
  C8. For every response whose status is not 2xx, \<^verbatim>\<open>postJSON\<close> and \<^verbatim>\<open>getJSON\<close> return the
  error \<^verbatim>\<open>http.Status: \<close> followed by the status text of the response, and the body is not
  decoded: the value behind \<^verbatim>\<open>response\<close> is the one passed in, and no decoder changes the
  outcome.
\<close>

theorem non_2xx_status_is_error:
  assumes "StatusCode resp < 200 \<or> 300 \<le> StatusCode resp"
  shows "(enc request (data (fst (getBufferFromPool c))) = (None, d) \<and>
          Post (httpClient c) url ''application/json; charset=utf-8'' d = Inr resp \<longrightarrow>
            fst (postJSON enc dec c url request response) =
              (Some (''http.Status: '' @ Status resp), response) \<and>
            postJSON enc dec' c url request response = postJSON enc dec c url request response) \<and>
         (Get (httpClient c) url = Inr resp \<longrightarrow>
            fst (getJSON dec c url response) = (Some (''http.Status: '' @ Status resp), response) \<and>
            getJSON dec' c url response = getJSON dec c url response)"
proof -
  from assms have ne: "StatusCode resp \<noteq> StatusOK"
    by (auto simp add: StatusOK_def)
  have post: "postJSON_body enc dx (httpClient c) url request response buf =
                ((Some (''http.Status: '' @ Status resp), response), buf\<lparr>data := d\<rparr>)"
    if "enc request (data buf) = (None, d)"
      and "Post (httpClient c) url ''application/json; charset=utf-8'' d = Inr resp"
    for dx :: "bytes \<Rightarrow> 'b \<Rightarrow> error option \<times> 'b" and buf
    using that ne by (simp add: postJSON_body_def)
  have get: "getJSON dx c url response = ((Some (''http.Status: '' @ Status resp), response), c)"
    if "Get (httpClient c) url = Inr resp" for dx :: "bytes \<Rightarrow> 'b \<Rightarrow> error option \<times> 'b"
    using that ne by (simp add: getJSON_def)
  have unfold: "postJSON enc dx c url request response =
      (fst (postJSON_body enc dx (httpClient c) url request response (fst (getBufferFromPool c))),
       putBufferToPool
         (snd (postJSON_body enc dx (httpClient c) url request response (fst (getBufferFromPool c))))
         (snd (getBufferFromPool c)))"
    for dx :: "bytes \<Rightarrow> 'b \<Rightarrow> error option \<times> 'b"
    by (simp add: postJSON_def getBufferFromPool_def case_prod_beta)
  show ?thesis
  proof (intro conjI impI)
    assume a: "enc request (data (fst (getBufferFromPool c))) = (None, d) \<and>
               Post (httpClient c) url ''application/json; charset=utf-8'' d = Inr resp"
    then show "fst (postJSON enc dec c url request response) =
                 (Some (''http.Status: '' @ Status resp), response)"
      using post [of "fst (getBufferFromPool c)" dec] by (simp add: unfold)
    from a show "postJSON enc dec' c url request response = postJSON enc dec c url request response"
      using post [of "fst (getBufferFromPool c)" dec] post [of "fst (getBufferFromPool c)" dec']
      by (simp add: unfold)
  next
    assume "Get (httpClient c) url = Inr resp"
    then show "fst (getJSON dec c url response) = (Some (''http.Status: '' @ Status resp), response)"
      using get [of dec] by simp
  next
    assume "Get (httpClient c) url = Inr resp"
    then show "getJSON dec' c url response = getJSON dec c url response"
      using get [of dec] get [of dec'] by simp
  qed
qed

theorem non_2xx_status_is_error_witness:
  "(StatusCode \<lparr>Status = ''404 Not Found'', StatusCode = 404, Body = []\<rparr> < 200 \<or>
    300 \<le> StatusCode \<lparr>Status = ''404 Not Found'', StatusCode = 404, Body = []\<rparr>) \<and>
   sample_enc ''{}'' (data (fst (getBufferFromPool sample_client))) = (None, ''{}'') \<and>
   Post (httpClient sample_client) ''/missing'' ''application/json; charset=utf-8'' ''{}'' =
     Inr \<lparr>Status = ''404 Not Found'', StatusCode = 404, Body = []\<rparr> \<and>
   Get (httpClient sample_client) ''/missing'' =
     Inr \<lparr>Status = ''404 Not Found'', StatusCode = 404, Body = []\<rparr> \<and>
   fst (postJSON sample_enc sample_dec sample_client ''/missing'' ''{}'' ''old'') =
     (Some ''http.Status: 404 Not Found'', ''old'') \<and>
   fst (getJSON sample_dec sample_client ''/missing'' ''old'') =
     (Some ''http.Status: 404 Not Found'', ''old'')"
proof -
  have h: "StatusCode \<lparr>Status = ''404 Not Found'', StatusCode = 404, Body = []\<rparr> < 200 \<or>
           300 \<le> StatusCode \<lparr>Status = ''404 Not Found'', StatusCode = 404, Body = []\<rparr>"
    by simp
  have e: "sample_enc ''{}'' (data (fst (getBufferFromPool sample_client))) = (None, ''{}'')"
    by (simp add: getBufferFromPool_def pool_Get_def newBuffer_def)
  have p: "Post (httpClient sample_client) ''/missing'' ''application/json; charset=utf-8'' ''{}'' =
             Inr \<lparr>Status = ''404 Not Found'', StatusCode = 404, Body = []\<rparr>"
    by simp
  have g: "Get (httpClient sample_client) ''/missing'' =
             Inr \<lparr>Status = ''404 Not Found'', StatusCode = 404, Body = []\<rparr>"
    by simp
  show ?thesis
    using h e p g
      non_2xx_status_is_error [OF h, of sample_enc "''{}''" sample_client "''{}''" "''/missing''"
        sample_dec "''old''" sample_dec]
    by simp
qed

section \<open>GET requests\<close>

text \<open>
  C10. \<^verbatim>\<open>getJSON\<close> returns an error exactly when the GET fails, or the status of the
  response is not 200, or decoding its body fails. When none of these happens it returns
  no error and the value the decoder produced from the body. It leaves the client, and so
  the buffer pool, as it found it: it takes no buffer and returns none.
\<close>

theorem getJSON_error_iff:
  "(fst (fst (getJSON dec c url response)) \<noteq> None \<longleftrightarrow>
      (\<exists>e. Get (httpClient c) url = Inl e) \<or>
      (\<exists>resp. Get (httpClient c) url = Inr resp \<and>
         (StatusCode resp \<noteq> 200 \<or> fst (dec (Body resp) response) \<noteq> None))) \<and>
   (Get (httpClient c) url = Inr resp \<and> StatusCode resp = 200 \<and>
    dec (Body resp) response = (None, v) \<longrightarrow>
      fst (getJSON dec c url response) = (None, v)) \<and>
   snd (getJSON dec c url response) = c \<and>
   bufferPool (snd (getJSON dec c url response)) = bufferPool c"
proof -
  have state: "snd (getJSON dec c url response) = c"
    by (simp add: getJSON_def split: sum.splits prod.splits option.splits)
  have ok: "fst (getJSON dec c url response) = (None, v)"
    if "Get (httpClient c) url = Inr resp" and "StatusCode resp = 200"
      and "dec (Body resp) response = (None, v)"
    using that by (simp add: getJSON_def StatusOK_def)
  have iff: "fst (fst (getJSON dec c url response)) \<noteq> None \<longleftrightarrow>
      (\<exists>e. Get (httpClient c) url = Inl e) \<or>
      (\<exists>resp. Get (httpClient c) url = Inr resp \<and>
         (StatusCode resp \<noteq> 200 \<or> fst (dec (Body resp) response) \<noteq> None))"
  proof (cases "Get (httpClient c) url")
    case (Inl e)
    then show ?thesis by (simp add: getJSON_def)
  next
    case (Inr resp)
    then show ?thesis
      by (cases "dec (Body resp) response")
         (auto simp add: getJSON_def StatusOK_def split: option.splits)
  qed
  from state ok iff show ?thesis by simp
qed

theorem getJSON_error_iff_witness:
  "Get (httpClient sample_client) ''/ok'' = Inr \<lparr>Status = ''200 OK'', StatusCode = 200, Body = ''{}''\<rparr> \<and>
   sample_dec ''{}'' ''old'' = (None, ''{}'') \<and>
   fst (getJSON sample_dec sample_client ''/ok'' ''old'') = (None, ''{}'') \<and>
   snd (getJSON sample_dec sample_client ''/ok'' ''old'') = sample_client"
proof -
  have g: "Get (httpClient sample_client) ''/ok'' =
             Inr \<lparr>Status = ''200 OK'', StatusCode = 200, Body = ''{}''\<rparr>"
    by simp
  have d: "sample_dec ''{}'' ''old'' = (None, ''{}'')"
    by simp
  show ?thesis
    using g d
      getJSON_error_iff [of sample_dec sample_client "''/ok''" "''old''"
        "\<lparr>Status = ''200 OK'', StatusCode = 200, Body = ''{}''\<rparr>" "''{}''"]
    by simp
qed

section \<open>Construction\<close>

lemma TokenRefresh_success:
  "Authenticate env (appid c) (appsecret c) r = (Inr (tok, validFor), r') \<Longrightarrow>
   TokenRefresh env c r =
     (c\<lparr>currentToken := \<lparr>token = tok, err = None\<rparr>, tick := Some (refreshAfter env validFor)\<rparr>, r')"
  by (simp add: TokenRefresh_def)

lemma TokenRefresh_failure:
  "Authenticate env (appid c) (appsecret c) r = (Inl e, r') \<Longrightarrow>
   TokenRefresh env c r =
     (c\<lparr>currentToken := \<lparr>token = token (currentToken c), err = Some e\<rparr>,
        tick := Some (retryAfter env)\<rparr>, r')"
  by (simp add: TokenRefresh_def)

lemma TokenRefresh_remote: "snd (TokenRefresh env c r) = snd (Authenticate env (appid c) (appsecret c) r)"
  by (simp add: TokenRefresh_def split: prod.splits sum.splits)

lemma TokenRefresh_frame:
  "appid (fst (TokenRefresh env c r)) = appid c \<and>
   appsecret (fst (TokenRefresh env c r)) = appsecret c \<and>
   httpClient (fst (TokenRefresh env c r)) = httpClient c \<and>
   bufferPool (fst (TokenRefresh env c r)) = bufferPool c \<and>
   resetRefreshTokenTickChan (fst (TokenRefresh env c r)) = resetRefreshTokenTickChan c \<and>
   tokenService (fst (TokenRefresh env c r)) = tokenService c"
  by (simp add: TokenRefresh_def split: prod.splits sum.splits)



text \<open>
  C2, as the spec states it: if the first fetch, the one \<^verbatim>\<open>NewClient\<close> performs, fails,
  then \<^verbatim>\<open>NewClient\<close> fails and returns no usable cache. It does not hold: with an authority
  that fails on the first call, \<^verbatim>\<open>NewClient\<close> returns a client with the goroutine started
  and the error recorded, and the next firing of the timer, which succeeds, leaves the
  token \<^verbatim>\<open>tok1\<close> in that same client.
\<close>

theorem NewClient_failed_fetch_counterexample:
  "fst (Authenticate down_then_tok1 ''wx1'' ''s3cret'' 0) = Inl ''ErrNetwork'' \<and>
   fst (NewClient down_then_tok1 ''wx1'' ''s3cret'' None 0) =
     \<lparr>appid = ''wx1'', appsecret = ''s3cret'',
      currentToken = \<lparr>token = [], err = Some ''ErrNetwork''\<rparr>,
      resetRefreshTokenTickChan = Chan 0,
      bufferPool = \<lparr>idle = [], capacity = 16, allocated = 0\<rparr>,
      httpClient = sample_transport,
      tokenService = True, tick = Some 60\<rparr> \<and>
   Token (fst (tokenService_fire down_then_tok1
            (fst (NewClient down_then_tok1 ''wx1'' ''s3cret'' None 0))
            (snd (NewClient down_then_tok1 ''wx1'' ''s3cret'' None 0)))) = (''tok1'', None)"
  by (simp add: NewClient_def TokenRefresh_def tokenService_fire_def Token_def pool_New_def)

text \<open>
  C2, amended: if the first fetch fails, \<^verbatim>\<open>NewClient\<close> does not fail. It returns the client
  it constructed, with the identifier, the secret, the transport and the pool of any other
  construction and with the goroutine started; the error is not handed to the caller of
  \<^verbatim>\<open>NewClient\<close> but recorded in the credential state beside the empty token, where the next
  read returns it.
\<close>

theorem NewClient_failed_fetch_recorded:
  assumes "fst (Authenticate env a s r) = Inl e"
  shows "appid (fst (NewClient env a s hc r)) = a \<and>
         appsecret (fst (NewClient env a s hc r)) = s \<and>
         httpClient (fst (NewClient env a s hc r)) =
           (case hc of None \<Rightarrow> DefaultClient env | Some h \<Rightarrow> h) \<and>
         bufferPool (fst (NewClient env a s hc r)) = pool_New 16 \<and>
         tokenService (fst (NewClient env a s hc r)) \<and>
         currentToken (fst (NewClient env a s hc r)) = \<lparr>token = [], err = Some e\<rparr> \<and>
         Token (fst (NewClient env a s hc r)) = ([], Some e)"
  using assms
  by (cases "Authenticate env a s r") (simp add: NewClient_def TokenRefresh_def Token_def)

theorem NewClient_failed_fetch_recorded_witness:
  "fst (Authenticate down_then_tok1 ''wx1'' ''s3cret'' 0) = Inl ''ErrNetwork'' \<and>
   Token (fst (NewClient down_then_tok1 ''wx1'' ''s3cret'' None 0)) = ([], Some ''ErrNetwork'') \<and>
   tokenService (fst (NewClient down_then_tok1 ''wx1'' ''s3cret'' None 0))"
proof -
  have h: "fst (Authenticate down_then_tok1 ''wx1'' ''s3cret'' 0) = Inl ''ErrNetwork''"
    by simp
  show ?thesis
    using h NewClient_failed_fetch_recorded [OF h, of None]
    by (simp add: Token_def)
qed

section \<open>Scheduled refreshes\<close>

text \<open>
  C4. When a fetch has succeeded and the next scheduled refresh fails, the refresh keeps
  the token fetched before and publishes the error with it: a read after it returns the
  old token and the new error, not the empty token. The goroutine is still running, its
  timer is set to the retry interval, and its next firing fetches again.
\<close>

theorem failed_refresh_keeps_token:
  assumes "tokenService c"
    and "Authenticate env (appid c) (appsecret c) r = (Inr (tok, validFor), r1)"
    and "Authenticate env (appid c) (appsecret c) r1 = (Inl e, r2)"
  shows "Token (fst (TokenRefresh env c r)) = (tok, None) \<and>
         Token (fst (tokenService_fire env (fst (TokenRefresh env c r)) r1)) = (tok, Some e) \<and>
         tokenService (fst (tokenService_fire env (fst (TokenRefresh env c r)) r1)) \<and>
         tick (fst (tokenService_fire env (fst (TokenRefresh env c r)) r1)) = Some (retryAfter env) \<and>
         snd (tokenService_fire env (fst (tokenService_fire env (fst (TokenRefresh env c r)) r1)) r2) =
           snd (Authenticate env (appid c) (appsecret c) r2)"
proof -
  let ?c1 = "c\<lparr>currentToken := \<lparr>token = tok, err = None\<rparr>, tick := Some (refreshAfter env validFor)\<rparr>"
  let ?c2 = "?c1\<lparr>currentToken := \<lparr>token = tok, err = Some e\<rparr>, tick := Some (retryAfter env)\<rparr>"
  have first: "TokenRefresh env c r = (?c1, r1)"
    using assms(2) by (rule TokenRefresh_success)
  have "TokenRefresh env ?c1 r1 = (?c2, r2)"
    using assms(3) TokenRefresh_failure [of env ?c1 r1 e r2] by simp
  with assms(1) have second: "tokenService_fire env ?c1 r1 = (?c2, r2)"
    by (simp add: tokenService_fire_def)
  from assms(1) have third: "snd (tokenService_fire env ?c2 r2) =
      snd (Authenticate env (appid c) (appsecret c) r2)"
    by (simp add: tokenService_fire_def TokenRefresh_remote)
  from assms(1) first second third show ?thesis
    by (simp add: Token_def)
qed

theorem failed_refresh_keeps_token_witness:
  "tokenService (sample_client\<lparr>currentToken := \<lparr>token = [], err = None\<rparr>, tick := None\<rparr>) \<and>
   Token (fst (TokenRefresh tok1_then_down
     (sample_client\<lparr>currentToken := \<lparr>token = [], err = None\<rparr>, tick := None\<rparr>) 0)) = (''tok1'', None) \<and>
   Token (fst (tokenService_fire tok1_then_down (fst (TokenRefresh tok1_then_down
     (sample_client\<lparr>currentToken := \<lparr>token = [], err = None\<rparr>, tick := None\<rparr>) 0)) 1)) =
     (''tok1'', Some ''ErrNetwork'') \<and>
   tick (fst (tokenService_fire tok1_then_down (fst (TokenRefresh tok1_then_down
     (sample_client\<lparr>currentToken := \<lparr>token = [], err = None\<rparr>, tick := None\<rparr>) 0)) 1)) = Some 60"
proof -
  let ?c = "sample_client\<lparr>currentToken := \<lparr>token = [], err = None\<rparr>, tick := None\<rparr>"
  have h1: "tokenService ?c"
    by simp
  have h2: "Authenticate tok1_then_down (appid ?c) (appsecret ?c) 0 = (Inr (''tok1'', 7200), 1)"
    by simp
  have h3: "Authenticate tok1_then_down (appid ?c) (appsecret ?c) 1 = (Inl ''ErrNetwork'', 2)"
    by simp
  show ?thesis
    using h1 failed_refresh_keeps_token [OF h1 h2 h3]
    by simp
qed

section \<open>Configuration\<close>



text \<open>
  The pool of a client made by \<^verbatim>\<open>NewClient\<close> respects its capacity, which is positive, and
  requests keep it so: the condition under which a released buffer is idle again.
\<close>

lemma NewClient_pool_bounded:
  "length (idle (bufferPool (fst (NewClient env a s hc r)))) \<le>
     capacity (bufferPool (fst (NewClient env a s hc r))) \<and>
   0 < capacity (bufferPool (fst (NewClient env a s hc r)))"
  by (simp add: NewClient_def TokenRefresh_frame pool_New_def)

lemma pool_Get_bounded:
  "length (idle p) \<le> capacity p \<Longrightarrow> length (idle (snd (pool_Get p))) \<le> capacity (snd (pool_Get p))"
  by (auto simp add: pool_Get_def split: list.splits)

lemma postJSON_pool_bounded:
  assumes "length (idle (bufferPool c)) \<le> capacity (bufferPool c)"
  shows "length (idle (bufferPool (snd (postJSON enc dec c url request response)))) \<le>
           capacity (bufferPool (snd (postJSON enc dec c url request response)))"
proof -
  have "snd (postJSON enc dec c url request response) =
      c\<lparr>bufferPool := pool_Put (snd (postJSON_body enc dec (httpClient c) url request response
           (fst (pool_Get (bufferPool c))))) (snd (pool_Get (bufferPool c)))\<rparr>"
    by (simp add: postJSON_def getBufferFromPool_def putBufferToPool_def case_prod_beta)
  with assms show ?thesis
    by (simp add: pool_Get_bounded pool_Put_bounded)
qed

end
